theory Spec2Isabelle
  imports Main "HOL-Library.Word" "HOL-Library.Sublist"
begin

section \<open>The RCF interface of bliss.sle: operations and PDU dispatch\<close>

text \<open>
  A shallow embedding of \<^verbatim>\<open>src/bliss/sle/rcf.py\<close>, class \<^verbatim>\<open>RCF\<close>. A method that
  mutates the object and may raise becomes a function from the session to an outcome:
  the exception raised, if any, and the session as the method left it.
\<close>

subsection \<open>Python values\<close>

type_synonym byte = "8 word"
type_synonym bytes = "byte list"

text \<open>The exceptions of the modelled code. \<^verbatim>\<open>StructError\<close> is \<^verbatim>\<open>struct.error\<close>.\<close>

datatype error =
    AttributeError string
  | ValueError string
  | StructError
  | IndexError
  | TypeError
  | PyAsn1Error
  | FrameError string

text \<open>
  Truth value of an optional integer argument: \<^verbatim>\<open>None\<close> and \<^verbatim>\<open>0\<close> are false,
  every other integer is true.
\<close>

fun truthy :: "int option \<Rightarrow> bool" where
  "truthy None = False"
| "truthy (Some n) = (n \<noteq> 0)"

text \<open>
  A \<^verbatim>\<open>datetime\<close> is a number of microseconds on the proleptic Gregorian time line,
  counted from 0001-01-01T00:00:00. The difference of two of them is a \<^verbatim>\<open>timedelta\<close>,
  whose \<^verbatim>\<open>days\<close> attribute is the floor of the difference in days.
\<close>

type_synonym datetime = int

definition usec_per_day :: int where
  "usec_per_day = 86400000000"

definition timedelta_days :: "datetime \<Rightarrow> datetime \<Rightarrow> int" where
  "timedelta_days a b = (a - b) div usec_per_day"

text \<open>
  \<^verbatim>\<open>struct.pack\<close> with the format \<^verbatim>\<open>'!HIH'\<close>: network byte order, standard sizes, no
  padding. \<^verbatim>\<open>H\<close> is an unsigned 16-bit field, \<^verbatim>\<open>I\<close> an unsigned 32-bit field; a value out
  of the field's range raises \<^verbatim>\<open>struct.error\<close>.
\<close>

definition pack_H :: "int \<Rightarrow> error + bytes" where
  "pack_H n =
     (if 0 \<le> n \<and> n \<le> 65535
      then Inr [word_of_int (n div 256), word_of_int (n mod 256)]
      else Inl StructError)"

definition pack_I :: "int \<Rightarrow> error + bytes" where
  "pack_I n =
     (if 0 \<le> n \<and> n \<le> 4294967295
      then Inr [word_of_int (n div 16777216), word_of_int (n div 65536 mod 256),
                word_of_int (n div 256 mod 256), word_of_int (n mod 256)]
      else Inl StructError)"

definition pack_HIH :: "int \<Rightarrow> int \<Rightarrow> int \<Rightarrow> error + bytes" where
  "pack_HIH a b c =
     (case pack_H a of Inl e \<Rightarrow> Inl e | Inr x \<Rightarrow>
      case pack_I b of Inl e \<Rightarrow> Inl e | Inr y \<Rightarrow>
      case pack_H c of Inl e \<Rightarrow> Inl e | Inr z \<Rightarrow> Inr (x @ y @ z))"

subsection \<open>Outbound PDUs\<close>

datatype credentials = Used bytes | Unused

datatype vc_id = MasterChannel | VirtualChannel "int option"

text \<open>
  \<^verbatim>\<open>GvcId\<close>. The fields hold the Python values assigned to them, which for an optional
  argument is an optional integer.
\<close>

record gvc_id =
  spacecraftId :: "int option"
  versionNumber :: "int option"
  vcId :: vc_id

datatype conditional_time = Known_ccsdsFormat bytes

datatype report_type = Immediately | Periodically "int option" | Stop

datatype user_pdu =
    RcfStartInvocation
      (invokerCredentials: credentials) (invokeId: int)
      (startTime: conditional_time) (stopTime: conditional_time)
      (requestedGvcId: gvc_id)
  | RcfScheduleStatusReportInvocation
      (invokerCredentials: credentials) (invokeId: int)
      (reportType: report_type)

subsection \<open>Decoded PDUs\<close>

text \<open>
  A decoded PDU is a tree of the PDU model's values: a \<^verbatim>\<open>Choice\<close> knows the name of
  its chosen alternative (\<^verbatim>\<open>getName\<close>) and the value chosen (\<^verbatim>\<open>getComponent\<close>), a
  \<^verbatim>\<open>Sequence\<close> has named fields, a \<^verbatim>\<open>SequenceOf\<close> has numbered entries. \<^verbatim>\<open>NoValue\<close>
  is a field of the schema that holds no value (\<^verbatim>\<open>isValue\<close> is false).
\<close>

datatype asn1 =
    NoValue
  | Null
  | Integer int
  | OctetString bytes
  | Choice string asn1
  | Sequence "(string \<times> asn1) list"
  | SequenceOf "asn1 list"

fun getName :: "asn1 \<Rightarrow> error + string" where
  "getName (Choice n c) = Inr n"
| "getName _ = Inl (AttributeError ''getName'')"

fun getComponent :: "asn1 \<Rightarrow> error + asn1" where
  "getComponent (Choice n c) = Inr c"
| "getComponent _ = Inl (AttributeError ''getComponent'')"

text \<open>\<^verbatim>\<open>x[k]\<close> for a field or alternative name \<^verbatim>\<open>k\<close>, and \<^verbatim>\<open>x[0]\<close>.\<close>

fun getitem :: "asn1 \<Rightarrow> string \<Rightarrow> error + asn1" where
  "getitem (Sequence fs) k = (case map_of fs k of Some v \<Rightarrow> Inr v | None \<Rightarrow> Inl PyAsn1Error)"
| "getitem (Choice n c) k = (if k = n then Inr c else Inl PyAsn1Error)"
| "getitem _ k = Inl TypeError"

fun getitem0 :: "asn1 \<Rightarrow> error + asn1" where
  "getitem0 (SequenceOf (e # es)) = Inr e"
| "getitem0 (SequenceOf []) = Inl IndexError"
| "getitem0 _ = Inl TypeError"

text \<open>\<^verbatim>\<open>k in x\<close>.\<close>

fun contains :: "string \<Rightarrow> asn1 \<Rightarrow> error + bool" where
  "contains k (Sequence fs) = Inr (k \<in> fst ` set fs)"
| "contains k _ = Inl TypeError"

fun isValue :: "asn1 \<Rightarrow> bool" where
  "isValue NoValue = False"
| "isValue _ = True"

fun asOctets :: "asn1 \<Rightarrow> error + bytes" where
  "asOctets (OctetString bs) = Inr bs"
| "asOctets _ = Inl (AttributeError ''asOctets'')"

text \<open>\<^verbatim>\<open>int(x)\<close>.\<close>

fun py_int :: "asn1 \<Rightarrow> error + int" where
  "py_int (Integer i) = Inr i"
| "py_int _ = Inl TypeError"

text \<open>
  Indexing a Python list: an index from \<^verbatim>\<open>-len\<close> to \<^verbatim>\<open>-1\<close> counts from the end, an
  index out of range raises \<^verbatim>\<open>IndexError\<close>.
\<close>

definition py_index :: "'a list \<Rightarrow> int \<Rightarrow> error + 'a" where
  "py_index xs i =
     (if 0 \<le> i \<and> i < int (length xs) then Inr (xs ! nat i)
      else if - int (length xs) \<le> i \<and> i < 0 then Inr (xs ! nat (i + int (length xs)))
      else Inl IndexError)"

text \<open>\<^verbatim>\<open>str.upper\<close> on one character of a byte string: the ASCII letters are mapped.\<close>

definition upper_char :: "char \<Rightarrow> char" where
  "upper_char c =
     (if (97::nat) \<le> of_char c \<and> of_char c \<le> (122::nat)
      then char_of (of_char c - (32::nat)) else c)"

text \<open>\<^verbatim>\<open>'{}'.format(n)\<close> for a length \<^verbatim>\<open>n\<close>: its decimal digits.\<close>

fun str_nat :: "nat \<Rightarrow> string" where
  "str_nat n =
     (if n < 10 then [char_of (48 + n)]
      else str_nat (n div 10) @ [char_of (48 + n mod 10)])"

declare str_nat.simps [simp del]

subsection \<open>The session\<close>

datatype level = INFO | WARNING | ERROR

text \<open>
  The handlers an \<^verbatim>\<open>RCF\<close> object registers are its own bound methods; \<^verbatim>\<open>External\<close> is
  a handler registered by the application.
\<close>

datatype handler =
    BindReturnHandler
  | UnbindReturnHandler
  | StartReturnHandler
  | StopReturnHandler
  | DataTransferHandler
  | ScheduleStatusReportReturnHandler
  | StatusReportInvocHandler
  | GetParamReturnHandler
  | TransferDataInvocHandler
  | SyncNotifyHandler
  | PeerAbortHandler
  | External nat

text \<open>
  The attributes of the object that the modelled methods read or write, and what the
  methods do to the outside: \<^verbatim>\<open>logged\<close> holds the calls of \<^verbatim>\<open>bliss.core.log\<close>,
  \<^verbatim>\<open>sent\<close> the PDUs handed to \<^verbatim>\<open>self.send(self.encode_pdu(...))\<close>, \<^verbatim>\<open>telem_sock\<close> the
  calls of \<^verbatim>\<open>self._telem_sock.sendto\<close> (data, host, port), and \<^verbatim>\<open>invoked\<close> the handler
  calls made by the dispatch loop, each with its argument.
\<close>

record session =
  auth_level :: string
  scid :: "int option"
  tfvn :: "int option"
  invoke_ctr :: int
  handlers :: "string \<rightharpoonup> handler list"
  invoked :: "(handler \<times> asn1) list"
  logged :: "(level \<times> string) list"
  sent :: "user_pdu list"
  telem_sock :: "(bytes \<times> string \<times> nat) list"

text \<open>
  What the class takes from other modules: the constant \<^verbatim>\<open>common.CCSDS_EPOCH\<close>, the
  value \<^verbatim>\<open>self.make_credentials()\<close> returns, the text \<^verbatim>\<open>str.format\<close> gives for a
  decoded value, \<^verbatim>\<open>frames.TMTransFrame(tm_data)\<close>, of which the class reads the list
  \<^verbatim>\<open>_data\<close>, and the handlers the application registers, of which the dispatch loop sees
  whether they return or raise. They are parameters of the model.
\<close>

record env =
  CCSDS_EPOCH :: datetime
  make_credentials :: "session \<Rightarrow> bytes"
  str_value :: "asn1 \<Rightarrow> string"
  TMTransFrame :: "bytes \<Rightarrow> error + bytes list"
  external_handler :: "nat \<Rightarrow> asn1 \<Rightarrow> error option"

type_synonym outcome = "error option \<times> session"

definition log_info :: "string \<Rightarrow> session \<Rightarrow> session" where
  "log_info m s = s\<lparr>logged := logged s @ [(INFO, m)]\<rparr>"

definition log_error :: "string \<Rightarrow> session \<Rightarrow> session" where
  "log_error m s = s\<lparr>logged := logged s @ [(ERROR, m)]\<rparr>"

text \<open>
  Modelled from the spec: \<^verbatim>\<open>self.encode_pdu\<close> and \<^verbatim>\<open>self.send\<close> are methods of the base
  class, which is not in the source; the spec has the PDU encoded and transmitted by that
  layer. The model records the PDU handed over.
\<close>

definition send :: "user_pdu \<Rightarrow> session \<Rightarrow> session" where
  "send pdu s = s\<lparr>sent := sent s @ [pdu]\<rparr>"

text \<open>
  Modelled from the spec: the property \<^verbatim>\<open>self.invoke_id\<close> of the base class, which is
  not in the source. The spec calls it a monotonic invoke-id source owned by the session:
  reading it yields the current value and advances the counter.
\<close>

definition invoke_id :: "session \<Rightarrow> int \<times> session" where
  "invoke_id s = (invoke_ctr s, s\<lparr>invoke_ctr := invoke_ctr s + 1\<rparr>)"

text \<open>
  Modelled from the spec: the table \<^verbatim>\<open>self._handlers\<close>, created by the base class, which is
  not in the source. The spec has registration append the handler to the ordered list kept
  under the variant name; a name without a list starts with the empty one. The statement
  of the source is \<^verbatim>\<open>self._handlers[key].append(h)\<close>.
\<close>

definition register :: "string \<Rightarrow> handler \<Rightarrow> session \<Rightarrow> session" where
  "register key h s =
     s\<lparr>handlers := (handlers s)(key \<mapsto> (case handlers s key of None \<Rightarrow> [] | Some hs \<Rightarrow> hs) @ [h])\<rparr>"

text \<open>\<^verbatim>\<open>RCF.__init__\<close>, after the base class has set up the session.\<close>

definition init :: "int option \<Rightarrow> int option \<Rightarrow> session \<Rightarrow> session" where
  "init spacecraft_id trans_frame_ver_num s =
     (register ''RcfPeerAbortInvocation'' PeerAbortHandler
     (register ''SyncNotification'' SyncNotifyHandler
     (register ''AnnotatedFrame'' TransferDataInvocHandler
     (register ''RcfGetParameterReturn'' GetParamReturnHandler
     (register ''RcfStatusReportInvocation'' StatusReportInvocHandler
     (register ''RcfScheduleStatusReportReturn'' ScheduleStatusReportReturnHandler
     (register ''RcfTransferBuffer'' DataTransferHandler
     (register ''RcfStopReturn'' StopReturnHandler
     (register ''RcfStartReturn'' StartReturnHandler
     (register ''RcfUnbindReturn'' UnbindReturnHandler
     (register ''RcfBindReturn'' BindReturnHandler
        (s\<lparr>scid := spacecraft_id, tfvn := trans_frame_ver_num\<rparr>))))))))))))"

subsection \<open>start\<close>

definition start_err_channel :: string where
  "start_err_channel =
     ''Transfer start invocation requires a master channel or '' @
     ''virtual channel from which to receive frames.''"

definition start_err_scid :: string where
  "start_err_scid =
     ''Transfer start invocation requires a spacecraft id '' @
     ''to specify the VCID from which to receive frames.''"

definition start_err_tfvn :: string where
  "start_err_tfvn =
     ''Transfer start invocation requires a transfer frame '' @
     ''version number to specify the VCID from which to '' @
     ''receive frames.''"

definition start ::
  "env \<Rightarrow> datetime \<Rightarrow> datetime \<Rightarrow> int option \<Rightarrow> int option \<Rightarrow> bool \<Rightarrow> int option
     \<Rightarrow> session \<Rightarrow> outcome" where
  "start X start_time end_time spacecraft_id trans_frame_ver_num master_channel
       virtual_channel s =
     (if \<not> master_channel \<and> \<not> truthy virtual_channel
      then (Some (AttributeError start_err_channel), s)
      else
        let spacecraft_id = (if truthy spacecraft_id then spacecraft_id else scid s) in
        if \<not> truthy spacecraft_id
        then (Some (AttributeError start_err_scid), s)
        else
          let trans_frame_ver_num =
                (if truthy trans_frame_ver_num then trans_frame_ver_num else tfvn s) in
          if \<not> truthy trans_frame_ver_num
          then (Some (AttributeError start_err_tfvn), s)
          else
            let creds = (if auth_level s = ''all'' then Used (make_credentials X s)
                         else Unused);
                (iid, s1) = invoke_id s
            in
            case pack_HIH (timedelta_days start_time (CCSDS_EPOCH X)) 0 0 of
              Inl e \<Rightarrow> (Some e, s1)
            | Inr start_time' \<Rightarrow>
            case pack_HIH (timedelta_days end_time (CCSDS_EPOCH X)) 0 0 of
              Inl e \<Rightarrow> (Some e, s1)
            | Inr stop_time \<Rightarrow>
              let req_gvcid =
                    \<lparr>spacecraftId = spacecraft_id, versionNumber = trans_frame_ver_num,
                     vcId = (if master_channel then MasterChannel
                             else VirtualChannel virtual_channel)\<rparr>;
                  start_invoc =
                    RcfStartInvocation creds iid (Known_ccsdsFormat start_time')
                      (Known_ccsdsFormat stop_time) req_gvcid
              in (None, send start_invoc (log_info ''Sending data start invocation ...'' s1)))"

subsection \<open>schedule\_status\_report\<close>

text \<open>
  Modelled from the spec: the PDU classes of \<^verbatim>\<open>bliss.sle.pdu.rcf\<close>, which are not in the
  source. An assignment to a field of a PDU stores the value given: the spec's design notes
  say that the observed \<^verbatim>\<open>schedule_status_report\<close> path does not enforce the bound of 2 to
  600 on the cycle. The method itself, which is in the source, checks the name of the
  report type and nothing else.
\<close>

definition schedule_status_report ::
  "env \<Rightarrow> string \<Rightarrow> int option \<Rightarrow> session \<Rightarrow> outcome" where
  "schedule_status_report X report_type cycle s =
     (let creds = (if auth_level s = ''all'' then Used (make_credentials X s) else Unused);
          (iid, s1) = invoke_id s
      in
      if report_type = ''immediately''
      then (None, send (RcfScheduleStatusReportInvocation creds iid Immediately)
                    (log_info ''Scheduling Status Report'' s1))
      else if report_type = ''periodically''
      then (None, send (RcfScheduleStatusReportInvocation creds iid (Periodically cycle))
                    (log_info ''Scheduling Status Report'' s1))
      else if report_type = ''stop''
      then (None, send (RcfScheduleStatusReportInvocation creds iid Stop)
                    (log_info ''Scheduling Status Report'' s1))
      else (Some (ValueError (''Unknown report type: '' @ report_type)), s1))"

subsection \<open>Handlers of the transfer buffer's entries\<close>

text \<open>\<^verbatim>\<open>_transfer_data_invoc_handler\<close>.\<close>

definition transfer_data_err :: string where
  "transfer_data_err =
     ''RcfTransferBuffer received but data cannot be located. '' @
     ''Skipping further processing of this PDU ...''"

definition transfer_data_invoc_handler :: "env \<Rightarrow> asn1 \<Rightarrow> session \<Rightarrow> outcome" where
  "transfer_data_invoc_handler X pdu s =
     (case getComponent pdu of Inl e \<Rightarrow> (Some e, s) | Inr frame \<Rightarrow>
      case contains ''data'' frame of Inl e \<Rightarrow> (Some e, s) | Inr has_data \<Rightarrow>
      case (if has_data then getitem frame ''data'' else Inr NoValue) of
        Inl e \<Rightarrow> (Some e, s)
      | Inr d \<Rightarrow>
        if has_data \<and> isValue d
        then
          (case asOctets d of Inl e \<Rightarrow> (Some e, s) | Inr tm_data \<Rightarrow>
           case TMTransFrame X tm_data of Inl e \<Rightarrow> (Some e, s) | Inr tmf_data \<Rightarrow>
           case py_index tmf_data 0 of Inl e \<Rightarrow> (Some e, s) | Inr seg \<Rightarrow>
             let s1 = log_info (''Sending '' @ str_nat (length seg) @
                                '' bytes to telemetry port'') s
             in (None, s1\<lparr>telem_sock := telem_sock s1 @ [(seg, ''localhost'', 3076)]\<rparr>))
        else (None, log_info transfer_data_err s))"

text \<open>
  \<^verbatim>\<open>_sync_notify_handler\<close>: the report it builds, and the handler, which logs it.
\<close>

definition prod_status_labels :: "string list" where
  "prod_status_labels = [''running'', ''interrupted'', ''halted'']"

definition sync_notify_report :: "env \<Rightarrow> asn1 \<Rightarrow> error + string" where
  "sync_notify_report X pdu =
     (case getComponent pdu of Inl e \<Rightarrow> Inl e | Inr c \<Rightarrow>
      case getitem c ''notification'' of Inl e \<Rightarrow> Inl e | Inr n \<Rightarrow>
      case getName n of Inl e \<Rightarrow> Inl e | Inr notification_name \<Rightarrow>
      case getComponent n of Inl e \<Rightarrow> Inl e | Inr notification \<Rightarrow>
        if notification_name = ''lossFrameSync''
        then
          (case getitem notification ''time'' of Inl e \<Rightarrow> Inl e | Inr t \<Rightarrow>
           case getitem notification ''carrierLockStatus'' of Inl e \<Rightarrow> Inl e | Inr cl \<Rightarrow>
           case getitem notification ''subcarrierLockStatus'' of Inl e \<Rightarrow> Inl e | Inr sl \<Rightarrow>
           case getitem notification ''symbolSynclockStatus'' of Inl e \<Rightarrow> Inl e | Inr yl \<Rightarrow>
             Inr (''Frame Sync has been lost. See report below ... '' @ [CHR 0x0A, CHR 0x0A] @
                  ''Lock Status Report'' @ [CHR 0x0A] @
                  ''Lock Time: '' @ str_value X t @ [CHR 0x0A] @
                  ''Carrier Lock Status: '' @ str_value X cl @ [CHR 0x0A] @
                  ''Sub-Carrier Lock Status: '' @ str_value X sl @ [CHR 0x0A] @
                  ''Symbol Sync Lock Status: '' @ str_value X yl))
        else if notification_name = ''productionStatusChange''
        then
          (case py_int notification of Inl e \<Rightarrow> Inl e | Inr i \<Rightarrow>
           case py_index prod_status_labels i of Inl e \<Rightarrow> Inl e | Inr label \<Rightarrow>
             Inr (''Production Status Report: '' @ label))
        else if notification_name = ''excessiveDataBacklog''
        then Inr ''Excessive Data Backlog Detected''
        else if notification_name = ''endOfData''
        then Inr ''End of Data Received''
        else Inr (''Received unknown sync notification: '' @ notification_name))"

definition sync_notify_handler :: "env \<Rightarrow> asn1 \<Rightarrow> session \<Rightarrow> outcome" where
  "sync_notify_handler X pdu s =
     (case sync_notify_report X pdu of
        Inl e \<Rightarrow> (Some e, s)
      | Inr report \<Rightarrow> (None, log_info report s))"

text \<open>
  Modelled from the spec: the handlers of the base class (\<^verbatim>\<open>common.SLE\<close>), to which the
  return, status-report and peer-abort handlers delegate with their \<^verbatim>\<open>provider_key\<close>.
  The base class is not in the source; the spec treats it as an external collaborator
  that handlers are expected not to raise in. The model leaves the session as it is.
\<close>

definition base_handler :: "string \<Rightarrow> asn1 \<Rightarrow> session \<Rightarrow> outcome" where
  "base_handler provider_key pdu s = (None, s)"

subsection \<open>Dispatch\<close>

definition no_handlers_err :: "string \<Rightarrow> string" where
  "no_handlers_err pdu_key =
     ''PDU of type '' @ pdu_key @ '' has no associated handlers. '' @
     ''Unable to process further and skipping ...''"

text \<open>
  \<^verbatim>\<open>_handle_pdu\<close>, its loop over the handlers found, the call of one handler, and
  \<^verbatim>\<open>_data_transfer_handler\<close>, which calls \<^verbatim>\<open>_handle_pdu\<close> on the first entry of the buffer.
  A handler that raises ends the loop: nothing in \<^verbatim>\<open>_handle_pdu\<close> catches the exception.
\<close>

function handle_pdu :: "env \<Rightarrow> asn1 \<Rightarrow> session \<Rightarrow> outcome"
  and for_handlers :: "env \<Rightarrow> handler list \<Rightarrow> asn1 \<Rightarrow> session \<Rightarrow> outcome"
  and call_handler :: "env \<Rightarrow> handler \<Rightarrow> asn1 \<Rightarrow> session \<Rightarrow> outcome"
  and data_transfer_handler :: "env \<Rightarrow> asn1 \<Rightarrow> session \<Rightarrow> outcome"
where
  "handle_pdu X pdu s =
     (case getName pdu of Inl e \<Rightarrow> (Some e, s) | Inr pdu_key \<Rightarrow>
        let pdu_key = map upper_char (take 1 pdu_key) @ drop 1 pdu_key in
        case handlers s pdu_key of
          Some pdu_handlerss \<Rightarrow> for_handlers X pdu_handlerss pdu s
        | None \<Rightarrow> (None, log_error (no_handlers_err pdu_key) s))"
| "for_handlers X [] pdu s = (None, s)"
| "for_handlers X (h # hs) pdu s =
     (case call_handler X h pdu (s\<lparr>invoked := invoked s @ [(h, pdu)]\<rparr>) of
        (None, s') \<Rightarrow> for_handlers X hs pdu s'
      | (Some e, s') \<Rightarrow> (Some e, s'))"
| "call_handler X h pdu s =
     (case h of
        BindReturnHandler \<Rightarrow> base_handler ''rcfBindReturn'' pdu s
      | UnbindReturnHandler \<Rightarrow> base_handler ''rcfUnbindReturn'' pdu s
      | StartReturnHandler \<Rightarrow> base_handler ''rcfStartReturn'' pdu s
      | StopReturnHandler \<Rightarrow> base_handler ''rcfStopReturn'' pdu s
      | DataTransferHandler \<Rightarrow> data_transfer_handler X pdu s
      | ScheduleStatusReportReturnHandler \<Rightarrow>
          base_handler ''rcfScheduleStatusReportReturn'' pdu s
      | StatusReportInvocHandler \<Rightarrow> base_handler ''rcfStatusReportInvocation'' pdu s
      | GetParamReturnHandler \<Rightarrow> base_handler ''rcfGetParameterReturn'' pdu s
      | TransferDataInvocHandler \<Rightarrow> transfer_data_invoc_handler X pdu s
      | SyncNotifyHandler \<Rightarrow> sync_notify_handler X pdu s
      | PeerAbortHandler \<Rightarrow> base_handler ''rcfPeerAbortInvocation'' pdu s
      | External n \<Rightarrow> (external_handler X n pdu, s))"
| "data_transfer_handler X pdu s =
     (case getitem pdu ''rcfTransferBuffer'' of Inl e \<Rightarrow> (Some e, s) | Inr buffer \<Rightarrow>
      case getitem0 buffer of Inl e \<Rightarrow> (Some e, s) | Inr entry \<Rightarrow>
        handle_pdu X entry s)"
  by pat_completeness auto
termination
proof -
  have field: "size v < size x" if "getitem x k = Inr v" for x k v
  proof (cases x)
    case (Sequence fs)
    with that have "map_of fs k = Some v" by (simp split: option.splits)
    then have "(k, v) \<in> set fs" by (rule map_of_SomeD)
    then have "size v < Suc (size_list (size_prod (\<lambda>_. 0) size) fs)"
      by (induction fs) auto
    with Sequence show ?thesis by simp
  qed (use that in \<open>auto split: if_splits\<close>)
  have entry: "size v < size x" if "getitem0 x = Inr v" for x v
    using that by (induction x rule: getitem0.induct) auto
  show ?thesis
    by (relation "measures
          [\<lambda>x. case x of
                 Inl (Inl (X, pdu, s)) \<Rightarrow> size pdu
               | Inl (Inr (X, hs, pdu, s)) \<Rightarrow> size pdu
               | Inr (Inl (X, h, pdu, s)) \<Rightarrow> size pdu
               | Inr (Inr (X, pdu, s)) \<Rightarrow> size pdu,
           \<lambda>x. case x of
                 Inl (Inl _) \<Rightarrow> 3
               | Inl (Inr _) \<Rightarrow> 2
               | Inr (Inl _) \<Rightarrow> 1
               | Inr (Inr _) \<Rightarrow> 0,
           \<lambda>x. case x of
                 Inl (Inr (X, hs, pdu, s)) \<Rightarrow> length hs
               | _ \<Rightarrow> 0]")
      (auto dest!: field entry)
qed

declare handle_pdu.simps [simp del]
declare call_handler.simps [simp del]
declare data_transfer_handler.simps [simp del]

subsection \<open>Concrete sessions\<close>

text \<open>
  An instance of the parameters and a session as the constructor leaves it, for
  evaluating the operations at concrete inputs. The epoch is 1958-01-01T00:00:00, day
  714779 after 0001-01-01; the stand-in frame decoder takes the octets after a six-byte
  header as the one data segment.
\<close>

definition example_env :: env where
  "example_env =
     \<lparr>CCSDS_EPOCH = 714779 * 86400000000,
      make_credentials = (\<lambda>s. [1, 2, 3]),
      str_value = (\<lambda>v. ''?''),
      TMTransFrame = (\<lambda>bs. if bs = [] then Inr [] else Inr [drop 6 bs]),
      external_handler = (\<lambda>n pdu. None)\<rparr>"

definition base_session :: session where
  "base_session =
     \<lparr>auth_level = ''none'', scid = None, tfvn = None, invoke_ctr = 0,
      handlers = Map.empty, invoked = [], logged = [], sent = [], telem_sock = []\<rparr>"

definition example_session :: session where
  "example_session = init (Some 42) (Some 1) base_session"

text \<open>A session with a second handler, of the application, for sync notifications.\<close>

definition two_handler_session :: session where
  "two_handler_session = register ''SyncNotification'' (External 0) example_session"

text \<open>A session whose authentication level is \<^verbatim>\<open>'all'\<close>.\<close>

definition auth_session :: session where
  "auth_session = example_session\<lparr>auth_level := ''all''\<rparr>"

text \<open>
  A sync notification of kind \<^verbatim>\<open>productionStatusChange\<close> with payload \<open>i\<close>, an annotated
  frame with the given \<^verbatim>\<open>data\<close> field, and a transfer buffer, as the decoder delivers them.
\<close>

definition status_pdu :: "int \<Rightarrow> asn1" where
  "status_pdu i =
     Choice ''syncNotification''
       (Sequence [(''notification'', Choice ''productionStatusChange'' (Integer i))])"

definition frame_pdu :: "asn1 \<Rightarrow> asn1" where
  "frame_pdu d = Choice ''annotatedFrame'' (Sequence [(''data'', d)])"

definition transfer_buffer :: "asn1 list \<Rightarrow> asn1" where
  "transfer_buffer entries = Choice ''rcfTransferBuffer'' (SequenceOf entries)"

subsection \<open>Notions used in the statements\<close>

text \<open>The timestamp \<open>N\<close> whole days after the epoch.\<close>

definition days_after_epoch :: "env \<Rightarrow> int \<Rightarrow> datetime" where
  "days_after_epoch X N = CCSDS_EPOCH X + N * usec_per_day"


text \<open>The key under which \<^verbatim>\<open>_handle_pdu\<close> looks a variant name up.\<close>

definition capitalize :: "string \<Rightarrow> string" where
  "capitalize n = map upper_char (take 1 n) @ drop 1 n"



section \<open>Properties\<close>

subsection \<open>Evaluation\<close>

lemmas eval_session =
  two_handler_session_def auth_session_def example_session_def init_def register_def
  base_session_def

lemmas eval_chars = capitalize_def upper_char_def char_of_def bit_Suc_0_iff

lemmas eval_handlers =
  handle_pdu.simps call_handler.simps data_transfer_handler.simps
  transfer_data_invoc_handler_def sync_notify_handler_def sync_notify_report_def
  py_index_def prod_status_labels_def log_info_def log_error_def
  status_pdu_def frame_pdu_def transfer_buffer_def

subsection \<open>Time encoding\<close>

lemma timedelta_days_after_epoch: "timedelta_days (days_after_epoch X N) (CCSDS_EPOCH X) = N"
  by (simp add: timedelta_days_def days_after_epoch_def usec_per_day_def)

lemma pack_HIH_day:
  assumes "0 \<le> N" and "N \<le> 65535"
  shows "pack_HIH N 0 0 =
           Inr [word_of_int (N div 256), word_of_int (N mod 256), 0, 0, 0, 0, 0, 0]"
  using assms by (simp add: pack_HIH_def pack_H_def pack_I_def)



subsection \<open>The outcome of start\<close>



text \<open>The call that returns has sent one PDU, built from the resolved arguments.\<close>

lemma start_sent:
  assumes "fst (start X st et sc tf m vc s) = None"
  shows "\<exists>a b. sent (snd (start X st et sc tf m vc s)) =
           sent s @ [RcfStartInvocation
                       (if auth_level s = ''all'' then Used (make_credentials X s) else Unused)
                       (invoke_ctr s) (Known_ccsdsFormat a) (Known_ccsdsFormat b)
                       \<lparr>spacecraftId = (if truthy sc then sc else scid s),
                        versionNumber = (if truthy tf then tf else tfvn s),
                        vcId = (if m then MasterChannel else VirtualChannel vc)\<rparr>]"
  using assms
  by (auto simp add: start_def invoke_id_def Let_def send_def log_info_def
      split: if_splits sum.splits)




subsection \<open>Channel selection and default resolution in start\<close>

text \<open>
  C1. The claim: \<^verbatim>\<open>start\<close> raises the no-channel-selection error when \<^verbatim>\<open>master_channel\<close>
  is false and \<^verbatim>\<open>virtual_channel\<close> is absent, and does not raise it when \<^verbatim>\<open>master_channel\<close>
  is true or a virtual channel index, index 0 included, is supplied. The check of the code
  is \<^verbatim>\<open>not master_channel and not virtual_channel\<close>, which is also true of the index 0:
  with \<^verbatim>\<open>master_channel\<close> false and \<^verbatim>\<open>virtual_channel=0\<close> the call raises the error and
  leaves the session as it was, whatever the other arguments are.
\<close>

theorem C1_virtual_channel_zero_rejected:
  "start X start_time end_time spacecraft_id trans_frame_ver_num False (Some 0) s =
     (Some (AttributeError start_err_channel), s)"
  by (simp add: start_def)

text \<open>
  C2. The claim: the spacecraft id and the frame version number of the GvcId are the
  argument when one is present, else the session default, and the missing-value errors are
  raised exactly when both are absent, also for a supplied value 0. The code tests the
  arguments for truth, so a supplied 0 counts as absent: the frame version 0 with no session
  default raises the missing-frame-version error, the spacecraft id 0 with no session default
  raises the missing-spacecraft-id error, and with session defaults 42 and 1 the call with
  both arguments 0 returns and its GvcId carries 42 and 1.
\<close>

theorem C2_zero_argument_dropped:
  "fst (start X start_time end_time (Some 42) (Some 0) True None (s\<lparr>tfvn := None\<rparr>)) =
     Some (AttributeError start_err_tfvn) \<and>
   fst (start X start_time end_time (Some 0) (Some 1) True None (s\<lparr>scid := None\<rparr>)) =
     Some (AttributeError start_err_scid) \<and>
   fst (start example_env (days_after_epoch example_env 365) (days_after_epoch example_env 366)
          (Some 0) (Some 0) True None example_session) = None \<and>
   map requestedGvcId
     (sent (snd (start example_env (days_after_epoch example_env 365)
                   (days_after_epoch example_env 366) (Some 0) (Some 0) True None
                   example_session))) =
     [\<lparr>spacecraftId = Some 42, versionNumber = Some 1, vcId = MasterChannel\<rparr>]"
  by (simp add: start_def Let_def timedelta_days_after_epoch pack_HIH_day invoke_id_def
      send_def log_info_def eval_session)

subsection \<open>The time fields of the Start PDU\<close>




subsection \<open>The cycle of a periodic status report\<close>




subsection \<open>Credentials\<close>

text \<open>
  C8. A call of \<^verbatim>\<open>start\<close> or of \<^verbatim>\<open>schedule_status_report\<close> that returns has sent one PDU,
  and the credentials field of that PDU is \<^verbatim>\<open>used\<close> with the session's credentials when the
  session's authentication level is \<^verbatim>\<open>'all'\<close> and \<^verbatim>\<open>unused\<close> otherwise: the field is a
  function of the session alone, not of the arguments of the call.
\<close>

theorem C8_credentials:
  "(fst (start X start_time end_time spacecraft_id trans_frame_ver_num master_channel
           virtual_channel s) = None \<longrightarrow>
      (\<exists>p. sent (snd (start X start_time end_time spacecraft_id trans_frame_ver_num
                        master_channel virtual_channel s)) = sent s @ [p] \<and>
           invokerCredentials p =
             (if auth_level s = ''all'' then Used (make_credentials X s) else Unused))) \<and>
   (fst (schedule_status_report X report_type cycle s) = None \<longrightarrow>
      (\<exists>p. sent (snd (schedule_status_report X report_type cycle s)) = sent s @ [p] \<and>
           invokerCredentials p =
             (if auth_level s = ''all'' then Used (make_credentials X s) else Unused)))"
proof (intro conjI impI)
  assume "fst (start X start_time end_time spacecraft_id trans_frame_ver_num master_channel
           virtual_channel s) = None"
  from start_sent [OF this]
  show "\<exists>p. sent (snd (start X start_time end_time spacecraft_id trans_frame_ver_num
                        master_channel virtual_channel s)) = sent s @ [p] \<and>
           invokerCredentials p =
             (if auth_level s = ''all'' then Used (make_credentials X s) else Unused)"
    by auto
next
  assume "fst (schedule_status_report X report_type cycle s) = None"
  then show "\<exists>p. sent (snd (schedule_status_report X report_type cycle s)) = sent s @ [p] \<and>
           invokerCredentials p =
             (if auth_level s = ''all'' then Used (make_credentials X s) else Unused)"
    by (auto simp add: schedule_status_report_def invoke_id_def Let_def send_def log_info_def
        split: if_splits)
qed

lemma example_start_returns:
  "fst (start example_env (days_after_epoch example_env 1) (days_after_epoch example_env 2)
          None None False (Some 3) example_session) = None"
  "fst (start example_env (days_after_epoch example_env 1) (days_after_epoch example_env 2)
          None None False (Some 3) auth_session) = None"
  "fst (start example_env (days_after_epoch example_env 1) (days_after_epoch example_env 2)
          None None True (Some 3) example_session) = None"
  by (simp_all add: start_def Let_def timedelta_days_after_epoch pack_HIH_day invoke_id_def
      eval_session)

text \<open>
  The theorem at sessions of authentication level \<^verbatim>\<open>'none'\<close> and \<^verbatim>\<open>'all'\<close>, for both
  operations.
\<close>

theorem C8_credentials_witness:
  "(\<exists>p. sent (snd (start example_env (days_after_epoch example_env 1)
                     (days_after_epoch example_env 2) None None False (Some 3)
                     example_session)) = [p] \<and>
        invokerCredentials p = Unused) \<and>
   (\<exists>p. sent (snd (start example_env (days_after_epoch example_env 1)
                     (days_after_epoch example_env 2) None None False (Some 3)
                     auth_session)) = [p] \<and>
        invokerCredentials p = Used [1, 2, 3]) \<and>
   (\<exists>p. sent (snd (schedule_status_report example_env ''stop'' None example_session)) = [p] \<and>
        invokerCredentials p = Unused) \<and>
   (\<exists>p. sent (snd (schedule_status_report example_env ''immediately'' None auth_session)) = [p] \<and>
        invokerCredentials p = Used [1, 2, 3])"
proof -
  have a: "fst (schedule_status_report example_env ''stop'' None example_session) = None"
    and b: "fst (schedule_status_report example_env ''immediately'' None auth_session) = None"
    by (simp_all add: schedule_status_report_def invoke_id_def Let_def)
  have c: "sent example_session = []" "sent auth_session = []"
    "auth_level example_session = ''none''" "auth_level auth_session = ''all''"
    "make_credentials example_env auth_session = [1, 2, 3]"
    by (simp_all add: eval_session example_env_def)
  from C8_credentials [of example_env "days_after_epoch example_env 1"
        "days_after_epoch example_env 2" None None False "Some 3" example_session
        "''stop''" None]
    C8_credentials [of example_env "days_after_epoch example_env 1"
        "days_after_epoch example_env 2" None None False "Some 3" auth_session
        "''immediately''" None]
    example_start_returns a b c
  show ?thesis by simp
qed

subsection \<open>Master channel and virtual channel together\<close>




subsection \<open>The handler calls of a dispatch\<close>


















subsection \<open>Dispatch\<close>




subsection \<open>The transfer buffer\<close>



lemma example_first_entry_only:
  "telem_sock (snd (data_transfer_handler example_env
     (transfer_buffer [frame_pdu (OctetString [1, 2, 3, 4, 5, 6, 7, 8]), status_pdu 1])
     example_session)) = [([7, 8], ''localhost'', 3076)]"
  "logged (snd (data_transfer_handler example_env
     (transfer_buffer [frame_pdu (OctetString [1, 2, 3, 4, 5, 6, 7, 8]), status_pdu 1])
     example_session)) = [(INFO, ''Sending 2 bytes to telemetry port'')]"
  by (simp_all add: eval_handlers eval_session eval_chars example_env_def str_nat.simps)

subsection \<open>Forwarding a frame\<close>




subsection \<open>Sync notifications\<close>

text \<open>
  C9. For a sync notification whose \<^verbatim>\<open>notification\<close> field is a choice with the name
  \<open>name\<close>: a production status change with the payload 0, 1 or 2 makes the handler log
  the report ending in \<^verbatim>\<open>running\<close>, \<^verbatim>\<open>interrupted\<close> or \<^verbatim>\<open>halted\<close>; a name that is none of
  the four the handler knows makes it log the report that ends in the name as it is. In
  each of these cases the handler returns without raising and the session differs by that
  one info-level log entry only.
\<close>

theorem C9_reports:
  assumes "getComponent pdu = Inr c"
    and "getitem c ''notification'' = Inr (Choice name payload)"
  shows "(name = ''productionStatusChange'' \<and> payload = Integer 0 \<longrightarrow>
            sync_notify_handler X pdu s =
              (None, s\<lparr>logged := logged s @ [(INFO, ''Production Status Report: running'')]\<rparr>)) \<and>
         (name = ''productionStatusChange'' \<and> payload = Integer 1 \<longrightarrow>
            sync_notify_handler X pdu s =
              (None, s\<lparr>logged := logged s @ [(INFO, ''Production Status Report: interrupted'')]\<rparr>)) \<and>
         (name = ''productionStatusChange'' \<and> payload = Integer 2 \<longrightarrow>
            sync_notify_handler X pdu s =
              (None, s\<lparr>logged := logged s @ [(INFO, ''Production Status Report: halted'')]\<rparr>)) \<and>
         (name \<notin> {''lossFrameSync'', ''productionStatusChange'', ''excessiveDataBacklog'',
                   ''endOfData''} \<longrightarrow>
            sync_notify_handler X pdu s =
              (None, s\<lparr>logged := logged s @
                         [(INFO, ''Received unknown sync notification: '' @ name)]\<rparr>))"
  using assms
  by (simp add: sync_notify_handler_def sync_notify_report_def py_index_def
      prod_status_labels_def log_info_def)

text \<open>
The theorem at the payloads 0, 1 and 2 and at a notification named \<^verbatim>\<open>mystery\<close>.
\<close>

theorem C9_reports_witness:
  "sync_notify_handler example_env (status_pdu 0) example_session =
     (None, example_session\<lparr>logged := [(INFO, ''Production Status Report: running'')]\<rparr>) \<and>
   sync_notify_handler example_env (status_pdu 1) example_session =
     (None, example_session\<lparr>logged := [(INFO, ''Production Status Report: interrupted'')]\<rparr>) \<and>
   sync_notify_handler example_env (status_pdu 2) example_session =
     (None, example_session\<lparr>logged := [(INFO, ''Production Status Report: halted'')]\<rparr>) \<and>
   sync_notify_handler example_env
     (Choice ''syncNotification'' (Sequence [(''notification'', Choice ''mystery'' Null)]))
     example_session =
     (None, example_session
        \<lparr>logged := [(INFO, ''Received unknown sync notification: mystery'')]\<rparr>)"
proof -
  have c: "getComponent (status_pdu i) =
             Inr (Sequence [(''notification'', Choice ''productionStatusChange'' (Integer i))])"
    for i
    by (simp add: status_pdu_def)
  have g: "getitem (Sequence [(''notification'', v)]) ''notification'' = Inr v" for v
    by simp
  have d: "getComponent (Choice ''syncNotification''
             (Sequence [(''notification'', Choice ''mystery'' Null)])) =
           Inr (Sequence [(''notification'', Choice ''mystery'' Null)])"
    by simp
  have e: "logged example_session = []" by (simp add: eval_session)
  from C9_reports [OF c g, of 0 example_env example_session]
    C9_reports [OF c g, of 1 example_env example_session]
    C9_reports [OF c g, of 2 example_env example_session]
    C9_reports [OF d g, of example_env example_session]
  show ?thesis by (simp add: e)
qed

end
